theory Spec2Isabelle
  imports Main "HOL-Library.Multiset"
begin

section \<open>The MongoDb task and conversation store (packages/core/src/core/mongo-db.ts)\<close>

text \<open>
  The class \<open>MongoDb\<close> keeps scheduled tasks and orchestrator chats in two MongoDB
  collections. Every method is a short sequence of driver calls, so the embedding has two
  layers: the driver calls the class uses (\<open>insertOne\<close>, \<open>updateOne\<close>,
  \<open>find\<close>, \<open>sort\<close>, \<open>limit\<close>, \<open>findOne\<close>, \<open>createIndex\<close>,
  \<open>MongoClient.connect\<close>, \<open>MongoClient.close\<close>), modelled after their documented
  behaviour, and the methods of the class, translated line by line on top of them.

  Conventions.
  \<^item> A JavaScript \<open>Date\<close> is either a time value, the number of milliseconds since
    the epoch, or the invalid date. A stored date is a time value: the driver writes the
    invalid date as the time value 0.
  \<^item> A JavaScript number is an integer, \<open>NaN\<close> or an infinity; numbers with a
    fractional part are outside the model.
  \<^item> Every clock read of the source (\<open>new Date()\<close>, \<open>Date.now()\<close>) is an
    argument of the model, one argument per read; a clock read is a time value.
  \<^item> The \<open>ObjectId\<close> that the driver generates for an inserted document is an
    argument too.
  \<^item> A collection is the list of its documents. The order in which a cursor yields the
    documents of a collection is the server's choice: it is the argument \<open>natural\<close>
    of the methods that read through a cursor.
  \<^item> A method returns its outcome, an error or a result, together with the state it
    leaves. Failures of the transport to the server are outside the model.
  \<^item> Opaque payloads (\<open>taskData\<close>, \<open>data\<close>) are strings.
\<close>

subsection \<open>Dates and numbers\<close>

type_synonym objectId = nat
type_synonym time = int

datatype date = Date time | InvalidDate

datatype number = Num int | NaN | Infinity | NegInfinity

text \<open>The largest time value of a \<open>Date\<close>, 8.64e15; \<open>new Date(v)\<close> is the
  invalid date when \<open>v\<close> is not finite or lies beyond it.\<close>

definition max_time :: int where
  "max_time = 8640000000000000"

definition new_Date :: "number \<Rightarrow> date" where
  "new_Date v =
     (case v of
        Num n \<Rightarrow> if \<bar>n\<bar> \<le> max_time then Date n else InvalidDate
      | NaN \<Rightarrow> InvalidDate
      | Infinity \<Rightarrow> InvalidDate
      | NegInfinity \<Rightarrow> InvalidDate)"

text \<open>The sum \<open>now + v\<close> of a time value and a number.\<close>

definition num_add :: "time \<Rightarrow> number \<Rightarrow> number" where
  "num_add a v =
     (case v of
        Num n \<Rightarrow> Num (a + n)
      | NaN \<Rightarrow> NaN
      | Infinity \<Rightarrow> Infinity
      | NegInfinity \<Rightarrow> NegInfinity)"

text \<open>What the driver stores for a \<open>Date\<close>: its time value, and 0 for the invalid
  date. (JavaScript builds no \<open>Date\<close> with a time value beyond \<open>max_time\<close>; the
  type has such values, and the model stores their time value.)\<close>

definition bson_date :: "date \<Rightarrow> time" where
  "bson_date d = (case d of Date t \<Rightarrow> t | InvalidDate \<Rightarrow> 0)"

text \<open>JavaScript's \<open>!v\<close> for an optional number: true of \<open>undefined\<close>, of 0 and
  of \<open>NaN\<close>.\<close>

definition falsy :: "number option \<Rightarrow> bool" where
  "falsy v =
     (case v of
        None \<Rightarrow> True
      | Some (Num n) \<Rightarrow> n = 0
      | Some NaN \<Rightarrow> True
      | Some Infinity \<Rightarrow> False
      | Some NegInfinity \<Rightarrow> False)"

subsection \<open>Documents\<close>

datatype status = Pending | Running | Completed | Failed

datatype handlerRole = Input | Output | Action

text \<open>The fields that \<open>ScheduledTask\<close> and \<open>OrchestratorChat\<close> share.\<close>

record document =
  doc_id :: "objectId option"
  userId :: string
  createdAt :: time
  updatedAt :: time

record scheduledTask = document +
  handlerName :: string
  taskData :: string
  nextRunAt :: time
  intervalMs :: "number option"
  status :: status

record orchestratorMessage =
  role :: handlerRole
  name :: string
  data :: string
  timestamp :: time

record orchestratorChat = document +
  messages :: "orchestratorMessage list"

datatype error = TypeError | Error string | MongoNotConnectedError | DuplicateKey

subsection \<open>The driver\<close>

text \<open>
  \<open>MongoClient\<close>: whether its topology is connected, whether \<open>close\<close> has ever
  been called, how many listeners are registered for the event \<open>connect\<close> (what
  \<open>listenerCount("connect")\<close> reads), and how many times the client has opened a
  connection to the server.

  \<open>MongoClient.connect\<close> returns at once on a connected client and opens a
  connection otherwise. \<open>MongoClient.close\<close> drops the topology. An operation on a
  client without a topology connects by itself, unless the client has been closed: then
  it throws \<open>MongoNotConnectedError\<close>.
\<close>

record mongoClient =
  topology_connected :: bool
  hasBeenClosed :: bool
  connect_listeners :: nat
  connections_opened :: nat

definition listenerCount_connect :: "mongoClient \<Rightarrow> nat" where
  "listenerCount_connect c = connect_listeners c"

definition client_connect :: "mongoClient \<Rightarrow> mongoClient" where
  "client_connect c =
     (if topology_connected c then c
      else c\<lparr>topology_connected := True, connections_opened := Suc (connections_opened c)\<rparr>)"

definition client_close :: "mongoClient \<Rightarrow> mongoClient" where
  "client_close c = c\<lparr>topology_connected := False, hasBeenClosed := True\<rparr>"

definition executeOperation :: "mongoClient \<Rightarrow> error + mongoClient" where
  "executeOperation c =
     (if topology_connected c then Inr c
      else if hasBeenClosed c then Inl MongoNotConnectedError
      else Inr (client_connect c))"

text \<open>An index specification is a field name with a direction; creating an index that
  exists changes nothing.\<close>

type_synonym index_spec = "string \<times> int"

definition createIndex :: "index_spec \<Rightarrow> index_spec list \<Rightarrow> index_spec list" where
  "createIndex spec idxs = (if spec \<in> set idxs then idxs else idxs @ [spec])"

text \<open>The filter \<open>{ _id: i }\<close>.\<close>

definition has_id :: "objectId \<Rightarrow> 'a document_scheme \<Rightarrow> bool" where
  "has_id i d = (doc_id d = Some i)"

text \<open>\<open>insertOne\<close> stores the document under the generated \<open>_id\<close>; the server
  refuses an \<open>_id\<close> that is taken.\<close>

definition insertOne ::
  "objectId \<Rightarrow> 'a document_scheme \<Rightarrow> 'a document_scheme list
    \<Rightarrow> error + 'a document_scheme list" where
  "insertOne i doc ds =
     (if list_ex (has_id i) ds then Inl DuplicateKey
      else Inr (ds @ [doc\<lparr>doc_id := Some i\<rparr>]))"

text \<open>\<open>updateOne\<close> applies the update to the first document that matches the filter,
  and to no other.\<close>

fun updateOne :: "('a \<Rightarrow> bool) \<Rightarrow> ('a \<Rightarrow> 'a) \<Rightarrow> 'a list \<Rightarrow> 'a list" where
  "updateOne flt upd [] = []"
| "updateOne flt upd (d # ds) =
     (if flt d then upd d # ds else d # updateOne flt upd ds)"

text \<open>\<open>findOne\<close> returns the first document that matches, or \<open>null\<close>.\<close>

definition findOne :: "('a \<Rightarrow> bool) \<Rightarrow> 'a list \<Rightarrow> 'a option" where
  "findOne flt ds = List.find flt ds"

text \<open>\<open>find(filter)\<close> yields the matching documents in the order \<open>natural\<close> in
  which the server goes through the collection. \<open>sort({field: 1})\<close> and
  \<open>sort({field: -1})\<close> order what the cursor yields by the field, ascending and
  descending. \<open>limit(0)\<close> sets no limit, and a negative limit is the limit of its
  absolute value.\<close>

definition cursor_find :: "('a list \<Rightarrow> 'a list) \<Rightarrow> ('a \<Rightarrow> bool) \<Rightarrow> 'a list \<Rightarrow> 'a list" where
  "cursor_find natural flt ds = filter flt (natural ds)"

definition sort_asc :: "('a \<Rightarrow> int) \<Rightarrow> 'a list \<Rightarrow> 'a list" where
  "sort_asc key ds = sort_key key ds"

definition sort_desc :: "('a \<Rightarrow> int) \<Rightarrow> 'a list \<Rightarrow> 'a list" where
  "sort_desc key ds = sort_key (\<lambda>d. - key d) ds"

definition cursor_limit :: "int \<Rightarrow> 'a list \<Rightarrow> 'a list" where
  "cursor_limit n ds = (if n = 0 then ds else take (nat \<bar>n\<bar>) ds)"

subsection \<open>The class MongoDb\<close>

text \<open>
  The state of a \<open>MongoDb\<close> object and of the database behind it: the client, whether
  the fields \<open>collection\<close> and \<open>orchestratorCollection\<close> are assigned (they are
  undefined until \<open>connect\<close> assigns them), and the documents and indexes of the two
  collections on the server. Calling a method of an undefined field is a
  \<open>TypeError\<close>. An exception leaves the state as the method has changed it so far.
\<close>

record mongoDb =
  client :: mongoClient
  collection :: bool
  orchestratorCollection :: bool
  scheduled_tasks :: "scheduledTask list"
  scheduled_tasks_indexes :: "index_spec list"
  orchestrators :: "orchestratorChat list"
  orchestrators_indexes :: "index_spec list"

type_synonym 'a outcome = "(error + 'a) \<times> mongoDb"

text \<open>\<open>this.collection.createIndex\<close> and \<open>this.orchestratorCollection.createIndex\<close>.\<close>

definition collection_createIndex :: "index_spec \<Rightarrow> mongoDb \<Rightarrow> unit outcome" where
  "collection_createIndex spec s =
     (case executeOperation (client s) of
        Inl e \<Rightarrow> (Inl e, s)
      | Inr c \<Rightarrow>
          (Inr (), s\<lparr>client := c,
                     scheduled_tasks_indexes := createIndex spec (scheduled_tasks_indexes s)\<rparr>))"

definition orchestratorCollection_createIndex :: "index_spec \<Rightarrow> mongoDb \<Rightarrow> unit outcome" where
  "orchestratorCollection_createIndex spec s =
     (case executeOperation (client s) of
        Inl e \<Rightarrow> (Inl e, s)
      | Inr c \<Rightarrow>
          (Inr (), s\<lparr>client := c,
                     orchestrators_indexes := createIndex spec (orchestrators_indexes s)\<rparr>))"

definition connect :: "mongoDb \<Rightarrow> unit outcome" where
  "connect s =
     (let s1 = (if listenerCount_connect (client s) = 0
                then s\<lparr>client := client_connect (client s)\<rparr> else s);
          s2 = s1\<lparr>collection := True\<rparr>
      in case collection_createIndex (''nextRunAt'', 1) s2 of
           (Inl e, s3) \<Rightarrow> (Inl e, s3)
         | (Inr _, s3) \<Rightarrow>
             (case collection_createIndex (''status'', 1) s3 of
                (Inl e, s4) \<Rightarrow> (Inl e, s4)
              | (Inr _, s4) \<Rightarrow>
                  orchestratorCollection_createIndex (''userId'', 1)
                    (s4\<lparr>orchestratorCollection := True\<rparr>)))"

definition close :: "mongoDb \<Rightarrow> unit outcome" where
  "close s = (Inr (), s\<lparr>client := client_close (client s)\<rparr>)"

text \<open>\<open>createTask\<close>: \<open>now\<close> is the clock read, \<open>i\<close> the generated
  \<open>_id\<close>; \<open>taskData\<close> is \<open>None\<close> when the caller passes \<open>undefined\<close> and
  the default \<open>{}\<close> applies. \<open>nextRunAt\<close> is any \<open>Date\<close>, stored as the
  driver writes it.\<close>

definition createTask ::
  "time \<Rightarrow> objectId \<Rightarrow> string \<Rightarrow> string \<Rightarrow> string option \<Rightarrow> date \<Rightarrow> number option
    \<Rightarrow> mongoDb \<Rightarrow> objectId outcome" where
  "createTask now i uid hname tdata nextRun interval s =
     (let doc = \<lparr>doc_id = None, userId = uid, createdAt = now, updatedAt = now,
                 handlerName = hname,
                 taskData = (case tdata of None \<Rightarrow> ''{}'' | Some d \<Rightarrow> d),
                 nextRunAt = bson_date nextRun, intervalMs = interval, status = Pending\<rparr>
      in if \<not> collection s then (Inl TypeError, s)
         else case executeOperation (client s) of
                Inl e \<Rightarrow> (Inl e, s)
              | Inr c \<Rightarrow>
                  (case insertOne i doc (scheduled_tasks s) of
                     Inl e \<Rightarrow> (Inl e, s\<lparr>client := c\<rparr>)
                   | Inr ds \<Rightarrow> (Inr i, s\<lparr>client := c, scheduled_tasks := ds\<rparr>)))"

definition findDueTasks ::
  "(scheduledTask list \<Rightarrow> scheduledTask list) \<Rightarrow> time \<Rightarrow> int \<Rightarrow> mongoDb
    \<Rightarrow> scheduledTask list outcome" where
  "findDueTasks natural now limit s =
     (if \<not> collection s then (Inl (Error ''Database collection is not initialized''), s)
      else case executeOperation (client s) of
             Inl e \<Rightarrow> (Inl e, s)
           | Inr c \<Rightarrow>
               (Inr (cursor_limit limit
                      (sort_asc nextRunAt
                        (cursor_find natural (\<lambda>t. status t = Pending \<and> nextRunAt t \<le> now)
                          (scheduled_tasks s)))),
                s\<lparr>client := c\<rparr>))"

text \<open>The default argument \<open>limit = 50\<close>.\<close>

definition findDueTasks_default ::
  "(scheduledTask list \<Rightarrow> scheduledTask list) \<Rightarrow> time \<Rightarrow> mongoDb
    \<Rightarrow> scheduledTask list outcome" where
  "findDueTasks_default natural now s = findDueTasks natural now 50 s"

definition markRunning :: "time \<Rightarrow> objectId \<Rightarrow> mongoDb \<Rightarrow> unit outcome" where
  "markRunning now taskId s =
     (if \<not> collection s then (Inl TypeError, s)
      else case executeOperation (client s) of
             Inl e \<Rightarrow> (Inl e, s)
           | Inr c \<Rightarrow>
               (Inr (), s\<lparr>client := c,
                          scheduled_tasks :=
                            updateOne (has_id taskId)
                              (\<lambda>t. t\<lparr>status := Running, updatedAt := now\<rparr>)
                              (scheduled_tasks s)\<rparr>))"

definition markCompleted :: "time \<Rightarrow> objectId \<Rightarrow> bool \<Rightarrow> mongoDb \<Rightarrow> unit outcome" where
  "markCompleted now taskId failed s =
     (if \<not> collection s then (Inl TypeError, s)
      else case executeOperation (client s) of
             Inl e \<Rightarrow> (Inl e, s)
           | Inr c \<Rightarrow>
               (Inr (), s\<lparr>client := c,
                          scheduled_tasks :=
                            updateOne (has_id taskId)
                              (\<lambda>t. t\<lparr>status := (if failed then Failed else Completed),
                                      updatedAt := now\<rparr>)
                              (scheduled_tasks s)\<rparr>))"

text \<open>\<open>updateNextRun\<close> takes any \<open>Date\<close> and stores it as the driver writes it.\<close>

definition updateNextRun :: "time \<Rightarrow> objectId \<Rightarrow> date \<Rightarrow> mongoDb \<Rightarrow> unit outcome" where
  "updateNextRun now taskId newRunTime s =
     (if \<not> collection s then (Inl TypeError, s)
      else case executeOperation (client s) of
             Inl e \<Rightarrow> (Inl e, s)
           | Inr c \<Rightarrow>
               (Inr (), s\<lparr>client := c,
                          scheduled_tasks :=
                            updateOne (has_id taskId)
                              (\<lambda>t. t\<lparr>status := Pending, nextRunAt := bson_date newRunTime,
                                      updatedAt := now\<rparr>)
                              (scheduled_tasks s)\<rparr>))"

text \<open>\<open>rescheduleIfRecurring\<close>: \<open>now\<close> is what \<open>Date.now()\<close> returns,
  \<open>now'\<close> the clock read of the method it calls. \<open>task\<close> is the object the caller
  holds, not the stored document. With \<open>task._id\<close> undefined the filter of the
  method called matches no document.\<close>

definition rescheduleIfRecurring ::
  "time \<Rightarrow> time \<Rightarrow> scheduledTask \<Rightarrow> mongoDb \<Rightarrow> unit outcome" where
  "rescheduleIfRecurring now now' task s =
     (case doc_id task of
        None \<Rightarrow>
          (if \<not> collection s then (Inl TypeError, s)
           else case executeOperation (client s) of
                  Inl e \<Rightarrow> (Inl e, s)
                | Inr c \<Rightarrow> (Inr (), s\<lparr>client := c\<rparr>))
      | Some taskId \<Rightarrow>
          if falsy (intervalMs task) then markCompleted now' taskId False s
          else updateNextRun now' taskId
                 (new_Date (num_add now (the (intervalMs task)))) s)"

definition deleteAll :: "mongoDb \<Rightarrow> unit outcome" where
  "deleteAll s =
     (if \<not> collection s then (Inl TypeError, s)
      else case executeOperation (client s) of
             Inl e \<Rightarrow> (Inl e, s)
           | Inr c \<Rightarrow> (Inr (), s\<lparr>client := c, scheduled_tasks := []\<rparr>))"

text \<open>\<open>createOrchestrator\<close> reads the clock twice, for \<open>createdAt\<close> and for
  \<open>updatedAt\<close>.\<close>

definition createOrchestrator ::
  "time \<Rightarrow> time \<Rightarrow> objectId \<Rightarrow> string \<Rightarrow> mongoDb \<Rightarrow> objectId outcome" where
  "createOrchestrator now now' i uid s =
     (let chat = \<lparr>doc_id = None, userId = uid, createdAt = now, updatedAt = now',
                  messages = []\<rparr>
      in if \<not> orchestratorCollection s then (Inl TypeError, s)
         else case executeOperation (client s) of
                Inl e \<Rightarrow> (Inl e, s)
              | Inr c \<Rightarrow>
                  (case insertOne i chat (orchestrators s) of
                     Inl e \<Rightarrow> (Inl e, s\<lparr>client := c\<rparr>)
                   | Inr ds \<Rightarrow> (Inr i, s\<lparr>client := c, orchestrators := ds\<rparr>)))"

text \<open>\<open>addMessage\<close> reads the clock twice: \<open>ts\<close> for the message's
  \<open>timestamp\<close>, \<open>now\<close> for the chat's \<open>updatedAt\<close>.\<close>

definition addMessage ::
  "time \<Rightarrow> time \<Rightarrow> objectId \<Rightarrow> handlerRole \<Rightarrow> string \<Rightarrow> string \<Rightarrow> mongoDb
    \<Rightarrow> unit outcome" where
  "addMessage ts now orchestratorId r n d s =
     (if \<not> orchestratorCollection s then (Inl TypeError, s)
      else case executeOperation (client s) of
             Inl e \<Rightarrow> (Inl e, s)
           | Inr c \<Rightarrow>
               (Inr (), s\<lparr>client := c,
                          orchestrators :=
                            updateOne (has_id orchestratorId)
                              (\<lambda>chat. chat\<lparr>messages :=
                                        messages chat @
                                          [\<lparr>role = r, name = n, data = d, timestamp = ts\<rparr>],
                                      updatedAt := now\<rparr>)
                              (orchestrators s)\<rparr>))"

definition getMessages :: "objectId \<Rightarrow> mongoDb \<Rightarrow> orchestratorMessage list outcome" where
  "getMessages orchestratorId s =
     (if \<not> orchestratorCollection s then (Inl TypeError, s)
      else case executeOperation (client s) of
             Inl e \<Rightarrow> (Inl e, s)
           | Inr c \<Rightarrow>
               (case findOne (has_id orchestratorId) (orchestrators s) of
                  None \<Rightarrow> (Inr [], s\<lparr>client := c\<rparr>)
                | Some doc \<Rightarrow> (Inr (messages doc), s\<lparr>client := c\<rparr>)))"

definition findOrchestratorsByUser ::
  "(orchestratorChat list \<Rightarrow> orchestratorChat list) \<Rightarrow> string \<Rightarrow> mongoDb
    \<Rightarrow> orchestratorChat list outcome" where
  "findOrchestratorsByUser natural uid s =
     (if \<not> orchestratorCollection s then (Inl TypeError, s)
      else case executeOperation (client s) of
             Inl e \<Rightarrow> (Inl e, s)
           | Inr c \<Rightarrow>
               (Inr (cursor_find natural (\<lambda>chat. userId chat = uid) (orchestrators s)),
                s\<lparr>client := c\<rparr>))"

definition getOrchestratorById :: "objectId \<Rightarrow> mongoDb \<Rightarrow> orchestratorChat option outcome" where
  "getOrchestratorById orchestratorId s =
     (if \<not> orchestratorCollection s then (Inl TypeError, s)
      else case executeOperation (client s) of
             Inl e \<Rightarrow> (Inl e, s)
           | Inr c \<Rightarrow> (Inr (findOne (has_id orchestratorId) (orchestrators s)), s\<lparr>client := c\<rparr>))"

text \<open>\<open>getOrchestratorsByUserId\<close> takes the collection from the client, not from the
  field \<open>orchestratorCollection\<close>, and rethrows what the driver throws.\<close>

definition getOrchestratorsByUserId ::
  "(orchestratorChat list \<Rightarrow> orchestratorChat list) \<Rightarrow> string \<Rightarrow> mongoDb
    \<Rightarrow> orchestratorChat list outcome" where
  "getOrchestratorsByUserId natural uid s =
     (case executeOperation (client s) of
        Inl e \<Rightarrow> (Inl e, s)
      | Inr c \<Rightarrow>
          (Inr (sort_desc createdAt
                 (cursor_find natural (\<lambda>chat. userId chat = uid) (orchestrators s))),
           s\<lparr>client := c\<rparr>))"

subsection \<open>Example states\<close>

text \<open>A pending task that is due from time 0 on, an empty chat, and a store on which
  \<open>connect\<close> has run, holding given tasks and chats.\<close>

definition example_task :: scheduledTask where
  "example_task =
     \<lparr>doc_id = Some 1, userId = ''u'', createdAt = 0, updatedAt = 0,
      handlerName = ''h'', taskData = ''{}'', nextRunAt = 0, intervalMs = None,
      status = Pending\<rparr>"

definition example_chat :: orchestratorChat where
  "example_chat =
     \<lparr>doc_id = Some 1, userId = ''u'', createdAt = 1, updatedAt = 1, messages = []\<rparr>"

definition example_db :: "scheduledTask list \<Rightarrow> orchestratorChat list \<Rightarrow> mongoDb" where
  "example_db ts cs =
     \<lparr>client = \<lparr>topology_connected = True, hasBeenClosed = False, connect_listeners = 0,
                connections_opened = 1\<rparr>,
      collection = True, orchestratorCollection = True,
      scheduled_tasks = ts,
      scheduled_tasks_indexes = [(''nextRunAt'', 1), (''status'', 1)],
      orchestrators = cs,
      orchestrators_indexes = [(''userId'', 1)]\<rparr>"

text \<open>The same store after \<open>close\<close>.\<close>

definition closed_db :: "scheduledTask list \<Rightarrow> orchestratorChat list \<Rightarrow> mongoDb" where
  "closed_db ts cs = snd (close (example_db ts cs))"

text \<open>The store as the constructor leaves it: nothing connected, no field assigned.\<close>

definition fresh_db :: mongoDb where
  "fresh_db =
     \<lparr>client = \<lparr>topology_connected = False, hasBeenClosed = False, connect_listeners = 0,
                connections_opened = 0\<rparr>,
      collection = False, orchestratorCollection = False,
      scheduled_tasks = [], scheduled_tasks_indexes = [],
      orchestrators = [], orchestrators_indexes = []\<rparr>"

section \<open>Properties of the driver calls\<close>

lemma executeOperation_connected:
  "topology_connected c \<Longrightarrow> executeOperation c = Inr c"
  by (simp add: executeOperation_def)

lemma executeOperation_closed:
  "\<not> topology_connected c \<Longrightarrow> hasBeenClosed c
    \<Longrightarrow> executeOperation c = Inl MongoNotConnectedError"
  by (simp add: executeOperation_def)

lemma executeOperation_Inr:
  "executeOperation c = Inr c' \<Longrightarrow> topology_connected c'"
  by (auto simp: executeOperation_def client_connect_def split: if_splits)

lemma client_connect_connected: "topology_connected (client_connect c)"
  by (simp add: client_connect_def)

lemma client_connect_idem: "topology_connected c \<Longrightarrow> client_connect c = c"
  by (simp add: client_connect_def)

lemma client_connect_listeners: "connect_listeners (client_connect c) = connect_listeners c"
  by (simp add: client_connect_def)

lemma updateOne_find_Some:
  "\<forall>x. flt x \<longrightarrow> flt (upd x) \<Longrightarrow> findOne flt ds = Some d
    \<Longrightarrow> findOne flt (updateOne flt upd ds) = Some (upd d)"
  by (induction ds) (auto simp: findOne_def)

lemma updateOne_find_None:
  "findOne flt ds = None \<Longrightarrow> updateOne flt upd ds = ds"
  by (induction ds) (auto simp: findOne_def split: if_splits)

lemma updateOne_others:
  "\<forall>x. flt x \<longrightarrow> flt (upd x)
    \<Longrightarrow> filter (\<lambda>d. \<not> flt d) (updateOne flt upd ds) = filter (\<lambda>d. \<not> flt d) ds"
  by (induction ds) auto

lemma updateOne_map_same:
  "\<forall>x. g (upd x) = g x \<Longrightarrow> map g (updateOne flt upd ds) = map g ds"
  by (induction ds) auto

lemma length_updateOne: "length (updateOne flt upd ds) = length ds"
  by (induction ds) auto

lemma updateOne_unconditional:
  assumes keep: "\<forall>x. flt x \<longrightarrow> flt (upd x)"
    and found: "findOne flt ds = Some d"
  shows "findOne flt (updateOne flt upd ds) = Some (upd d)
         \<and> filter (\<lambda>x. \<not> flt x) (updateOne flt upd ds) = filter (\<lambda>x. \<not> flt x) ds"
  using updateOne_find_Some [OF keep found] updateOne_others [OF keep] by simp

lemma has_id_task_upd:
  "has_id i ((t::scheduledTask)\<lparr>updatedAt := b\<rparr>) = has_id i t"
  "has_id i (t\<lparr>status := a\<rparr>) = has_id i t"
  "has_id i (t\<lparr>nextRunAt := c\<rparr>) = has_id i t"
  by (simp_all add: has_id_def)

lemma has_id_chat_upd:
  "has_id i ((c::orchestratorChat)\<lparr>updatedAt := b\<rparr>) = has_id i c"
  "has_id i (c\<lparr>messages := m\<rparr>) = has_id i c"
  by (simp_all add: has_id_def)

lemma createIndex_idem: "createIndex spec (createIndex spec idxs) = createIndex spec idxs"
  by (simp add: createIndex_def)

lemma createIndex_mem: "spec \<in> set (createIndex spec idxs)"
  by (simp add: createIndex_def)

lemma createIndex_keeps: "x \<in> set idxs \<Longrightarrow> x \<in> set (createIndex spec idxs)"
  by (simp add: createIndex_def)

lemma createIndex_present: "spec \<in> set idxs \<Longrightarrow> createIndex spec idxs = idxs"
  by (simp add: createIndex_def)

lemma cursor_limit_take: "\<exists>k. cursor_limit n ds = take k ds"
proof (cases "n = 0")
  case True
  then have "cursor_limit n ds = take (length ds) ds"
    by (simp add: cursor_limit_def)
  then show ?thesis ..
next
  case False
  then show ?thesis
    by (auto simp: cursor_limit_def)
qed

lemma sorted_take_le_rest:
  assumes "sorted (map key xs)"
    and "a \<in> set (take k xs)"
    and "b \<in> set xs"
    and "b \<notin> set (take k xs)"
  shows "key a \<le> key b"
proof -
  have "set xs = set (take k xs) \<union> set (drop k xs)"
    by (simp flip: set_append)
  then have b: "b \<in> set (drop k xs)"
    using assms(3) assms(4) by blast
  have "sorted (map key (take k xs) @ map key (drop k xs))"
    using assms(1) by (simp flip: map_append)
  then show ?thesis
    using assms(2) b by (auto simp: sorted_append)
qed

lemma sort_desc_sorted: "sorted_wrt (\<lambda>a b. key b \<le> key a) (sort_desc key ds)"
proof -
  have "sorted (map (\<lambda>d. - key d) (sort_desc key ds))"
    unfolding sort_desc_def by (rule sorted_sort_key)
  then show ?thesis
    by (simp add: sorted_wrt_map)
qed

lemma mset_cursor_find:
  "mset (natural ds) = mset ds \<Longrightarrow> mset (cursor_find natural flt ds) = mset (filter flt ds)"
  by (simp add: cursor_find_def)

lemma set_cursor_find:
  "mset (natural ds) = mset ds \<Longrightarrow> set (cursor_find natural flt ds) = {d \<in> set ds. flt d}"
  using mset_eq_setD [of "natural ds" ds] by (auto simp: cursor_find_def)

section \<open>connect\<close>

lemma collection_createIndex_connected:
  "topology_connected (client s) \<Longrightarrow>
   collection_createIndex spec s
     = (Inr (), s\<lparr>scheduled_tasks_indexes := createIndex spec (scheduled_tasks_indexes s)\<rparr>)"
  by (simp add: collection_createIndex_def executeOperation_connected)

lemma orchestratorCollection_createIndex_connected:
  "topology_connected (client s) \<Longrightarrow>
   orchestratorCollection_createIndex spec s
     = (Inr (), s\<lparr>orchestrators_indexes := createIndex spec (orchestrators_indexes s)\<rparr>)"
  by (simp add: orchestratorCollection_createIndex_def executeOperation_connected)

text \<open>\<open>connect\<close> in one step: the client after the guarded \<open>client.connect()\<close>,
  then the first operation, which decides between the error and the three indexes.\<close>

lemma connect_eq:
  "connect s =
     (let c1 = (if connect_listeners (client s) = 0 then client_connect (client s)
                else client s)
      in case executeOperation c1 of
           Inl e \<Rightarrow> (Inl e, s\<lparr>client := c1, collection := True\<rparr>)
         | Inr c \<Rightarrow>
             (Inr (), s\<lparr>client := c, collection := True,
                        scheduled_tasks_indexes :=
                          createIndex (''status'', 1)
                            (createIndex (''nextRunAt'', 1) (scheduled_tasks_indexes s)),
                        orchestratorCollection := True,
                        orchestrators_indexes :=
                          createIndex (''userId'', 1) (orchestrators_indexes s)\<rparr>))"
proof -
  let ?c1 = "if connect_listeners (client s) = 0 then client_connect (client s) else client s"
  let ?s2 = "s\<lparr>client := ?c1, collection := True\<rparr>"
  have start: "connect s =
      (case collection_createIndex (''nextRunAt'', 1) ?s2 of
         (Inl e, s3) \<Rightarrow> (Inl e, s3)
       | (Inr _, s3) \<Rightarrow>
           (case collection_createIndex (''status'', 1) s3 of
              (Inl e, s4) \<Rightarrow> (Inl e, s4)
            | (Inr _, s4) \<Rightarrow>
                orchestratorCollection_createIndex (''userId'', 1)
                  (s4\<lparr>orchestratorCollection := True\<rparr>)))"
    by (simp add: connect_def Let_def listenerCount_connect_def)
  show ?thesis
  proof (cases "executeOperation ?c1")
    case (Inl e)
    then have "collection_createIndex (''nextRunAt'', 1) ?s2 = (Inl e, ?s2)"
      by (simp add: collection_createIndex_def)
    then show ?thesis
      using Inl start by (simp add: Let_def)
  next
    case (Inr c)
    have con: "topology_connected c"
      using Inr by (rule executeOperation_Inr)
    let ?s3 = "s\<lparr>client := c, collection := True,
        scheduled_tasks_indexes := createIndex (''nextRunAt'', 1) (scheduled_tasks_indexes s)\<rparr>"
    have a: "collection_createIndex (''nextRunAt'', 1) ?s2 = (Inr (), ?s3)"
      using Inr by (simp add: collection_createIndex_def)
    let ?s4 = "s\<lparr>client := c, collection := True,
        scheduled_tasks_indexes :=
          createIndex (''status'', 1)
            (createIndex (''nextRunAt'', 1) (scheduled_tasks_indexes s))\<rparr>"
    have b: "collection_createIndex (''status'', 1) ?s3 = (Inr (), ?s4)"
      using collection_createIndex_connected [of ?s3 "(''status'', 1)"] con by simp
    let ?s5 = "s\<lparr>client := c, collection := True,
        scheduled_tasks_indexes :=
          createIndex (''status'', 1)
            (createIndex (''nextRunAt'', 1) (scheduled_tasks_indexes s)),
        orchestratorCollection := True\<rparr>"
    have c: "orchestratorCollection_createIndex (''userId'', 1) ?s5
        = (Inr (), ?s5\<lparr>orchestrators_indexes :=
             createIndex (''userId'', 1) (orchestrators_indexes s)\<rparr>)"
      using orchestratorCollection_createIndex_connected [of ?s5 "(''userId'', 1)"] con
      by simp
    have "connect s = (Inr (), ?s5\<lparr>orchestrators_indexes :=
             createIndex (''userId'', 1) (orchestrators_indexes s)\<rparr>)"
      by (simp add: start a b c)
    then show ?thesis
      using Inr by (simp add: Let_def)
  qed
qed


text \<open>After a \<open>connect\<close> that succeeded, the client is connected, both fields are
  assigned and the three indexes exist.\<close>

lemma connect_success:
  assumes "connect s = (Inr (), s')"
  shows "topology_connected (client s')"
    and "collection s'"
    and "orchestratorCollection s'"
    and "(''nextRunAt'', 1) \<in> set (scheduled_tasks_indexes s')"
    and "(''status'', 1) \<in> set (scheduled_tasks_indexes s')"
    and "(''userId'', 1) \<in> set (orchestrators_indexes s')"
proof -
  let ?c1 = "if connect_listeners (client s) = 0 then client_connect (client s) else client s"
  obtain c where c: "executeOperation ?c1 = Inr c"
    using assms by (cases "executeOperation ?c1") (simp_all add: connect_eq Let_def)
  have s': "s' = s\<lparr>client := c, collection := True,
      scheduled_tasks_indexes :=
        createIndex (''status'', 1) (createIndex (''nextRunAt'', 1) (scheduled_tasks_indexes s)),
      orchestratorCollection := True,
      orchestrators_indexes := createIndex (''userId'', 1) (orchestrators_indexes s)\<rparr>"
    using assms c by (simp add: connect_eq Let_def)
  show "topology_connected (client s')"
    using executeOperation_Inr [OF c] by (simp add: s')
  show "collection s'" and "orchestratorCollection s'"
    by (simp_all add: s')
  show "(''nextRunAt'', 1) \<in> set (scheduled_tasks_indexes s')"
    by (simp add: s' createIndex_keeps createIndex_mem)
  show "(''status'', 1) \<in> set (scheduled_tasks_indexes s')"
    by (simp add: s' createIndex_mem)
  show "(''userId'', 1) \<in> set (orchestrators_indexes s')"
    by (simp add: s' createIndex_mem)
qed

section \<open>The three status updates\<close>

lemma markRunning_stored:
  assumes "collection s"
    and "topology_connected (client s)"
    and "findOne (has_id taskId) (scheduled_tasks s) = Some t"
  shows "\<exists>s'. markRunning now taskId s = (Inr (), s')
           \<and> findOne (has_id taskId) (scheduled_tasks s')
               = Some (t\<lparr>status := Running, updatedAt := now\<rparr>)
           \<and> filter (\<lambda>d. \<not> has_id taskId d) (scheduled_tasks s')
               = filter (\<lambda>d. \<not> has_id taskId d) (scheduled_tasks s)
           \<and> s'\<lparr>scheduled_tasks := scheduled_tasks s\<rparr> = s"
proof -
  let ?upd = "\<lambda>t::scheduledTask. t\<lparr>status := Running, updatedAt := now\<rparr>"
  let ?s' = "s\<lparr>scheduled_tasks := updateOne (has_id taskId) ?upd (scheduled_tasks s)\<rparr>"
  have keep: "\<forall>x. has_id taskId x \<longrightarrow> has_id taskId (?upd x)"
    by (simp add: has_id_task_upd)
  have "markRunning now taskId s = (Inr (), ?s')"
    using assms(1) assms(2) by (simp add: markRunning_def executeOperation_connected)
  moreover have "?s'\<lparr>scheduled_tasks := scheduled_tasks s\<rparr> = s"
    by simp
  ultimately show ?thesis
    using updateOne_unconditional [OF keep assms(3)] by auto
qed

lemma markCompleted_stored:
  assumes "collection s"
    and "topology_connected (client s)"
    and "findOne (has_id taskId) (scheduled_tasks s) = Some t"
  shows "\<exists>s'. markCompleted now taskId failed s = (Inr (), s')
           \<and> findOne (has_id taskId) (scheduled_tasks s')
               = Some (t\<lparr>status := (if failed then Failed else Completed), updatedAt := now\<rparr>)
           \<and> filter (\<lambda>d. \<not> has_id taskId d) (scheduled_tasks s')
               = filter (\<lambda>d. \<not> has_id taskId d) (scheduled_tasks s)
           \<and> s'\<lparr>scheduled_tasks := scheduled_tasks s\<rparr> = s"
proof -
  let ?upd = "\<lambda>t::scheduledTask.
    t\<lparr>status := (if failed then Failed else Completed), updatedAt := now\<rparr>"
  let ?s' = "s\<lparr>scheduled_tasks := updateOne (has_id taskId) ?upd (scheduled_tasks s)\<rparr>"
  have keep: "\<forall>x. has_id taskId x \<longrightarrow> has_id taskId (?upd x)"
    by (simp add: has_id_task_upd)
  have "markCompleted now taskId failed s = (Inr (), ?s')"
    using assms(1) assms(2) by (simp add: markCompleted_def executeOperation_connected)
  moreover have "?s'\<lparr>scheduled_tasks := scheduled_tasks s\<rparr> = s"
    by simp
  ultimately show ?thesis
    using updateOne_unconditional [OF keep assms(3)] by auto
qed

lemma updateNextRun_stored:
  assumes "collection s"
    and "topology_connected (client s)"
    and "findOne (has_id taskId) (scheduled_tasks s) = Some t"
  shows "\<exists>s'. updateNextRun now taskId newRunTime s = (Inr (), s')
           \<and> findOne (has_id taskId) (scheduled_tasks s')
               = Some (t\<lparr>status := Pending, nextRunAt := bson_date newRunTime,
                         updatedAt := now\<rparr>)
           \<and> filter (\<lambda>d. \<not> has_id taskId d) (scheduled_tasks s')
               = filter (\<lambda>d. \<not> has_id taskId d) (scheduled_tasks s)
           \<and> s'\<lparr>scheduled_tasks := scheduled_tasks s\<rparr> = s"
proof -
  let ?upd = "\<lambda>t::scheduledTask.
    t\<lparr>status := Pending, nextRunAt := bson_date newRunTime, updatedAt := now\<rparr>"
  let ?s' = "s\<lparr>scheduled_tasks := updateOne (has_id taskId) ?upd (scheduled_tasks s)\<rparr>"
  have keep: "\<forall>x. has_id taskId x \<longrightarrow> has_id taskId (?upd x)"
    by (simp add: has_id_task_upd)
  have "updateNextRun now taskId newRunTime s = (Inr (), ?s')"
    using assms(1) assms(2) by (simp add: updateNextRun_def executeOperation_connected)
  moreover have "?s'\<lparr>scheduled_tasks := scheduled_tasks s\<rparr> = s"
    by simp
  ultimately show ?thesis
    using updateOne_unconditional [OF keep assms(3)] by auto
qed

section \<open>The closed client\<close>

text \<open>After \<open>close\<close> the fields stay assigned, and every method that reaches the
  driver throws \<open>MongoNotConnectedError\<close> and changes nothing.\<close>

lemma close_closes:
  "\<not> topology_connected (client (snd (close s))) \<and> hasBeenClosed (client (snd (close s)))
   \<and> collection (snd (close s)) = collection s
   \<and> orchestratorCollection (snd (close s)) = orchestratorCollection s"
  by (simp add: close_def client_close_def)

lemma closed_client_tasks:
  assumes "\<not> topology_connected (client s)"
    and "hasBeenClosed (client s)"
    and "collection s"
  shows "createTask now i uid hname tdata nextRun interval s = (Inl MongoNotConnectedError, s)"
    and "findDueTasks natural now limit s = (Inl MongoNotConnectedError, s)"
    and "markRunning now taskId s = (Inl MongoNotConnectedError, s)"
    and "markCompleted now taskId failed s = (Inl MongoNotConnectedError, s)"
    and "updateNextRun now taskId newRunTime s = (Inl MongoNotConnectedError, s)"
    and "rescheduleIfRecurring now now' task s = (Inl MongoNotConnectedError, s)"
    and "deleteAll s = (Inl MongoNotConnectedError, s)"
  using assms
  by (simp_all add: createTask_def findDueTasks_def markRunning_def markCompleted_def
      updateNextRun_def rescheduleIfRecurring_def deleteAll_def executeOperation_closed
      split: option.split)

lemma closed_client_chats:
  assumes "\<not> topology_connected (client s)"
    and "hasBeenClosed (client s)"
  shows "orchestratorCollection s
      \<Longrightarrow> createOrchestrator now now' i uid s = (Inl MongoNotConnectedError, s)"
    and "orchestratorCollection s
      \<Longrightarrow> addMessage ts now orchestratorId r n d s = (Inl MongoNotConnectedError, s)"
    and "orchestratorCollection s
      \<Longrightarrow> getMessages orchestratorId s = (Inl MongoNotConnectedError, s)"
    and "orchestratorCollection s
      \<Longrightarrow> findOrchestratorsByUser natural uid s = (Inl MongoNotConnectedError, s)"
    and "orchestratorCollection s
      \<Longrightarrow> getOrchestratorById orchestratorId s = (Inl MongoNotConnectedError, s)"
    and "getOrchestratorsByUserId natural uid s = (Inl MongoNotConnectedError, s)"
  using assms
  by (simp_all add: createOrchestrator_def addMessage_def getMessages_def
      findOrchestratorsByUser_def getOrchestratorById_def getOrchestratorsByUserId_def
      executeOperation_closed)

lemma markRunning_after_close:
  "markRunning 7 1 (closed_db [example_task] []) = (Inl MongoNotConnectedError, closed_db [example_task] [])"
  by (simp add: markRunning_def closed_db_def close_def client_close_def example_db_def
      executeOperation_def)


section \<open>rescheduleIfRecurring, branch by branch\<close>

lemma rescheduleIfRecurring_unset:
  assumes "collection s"
    and "topology_connected (client s)"
    and "doc_id task = Some taskId"
    and "findOne (has_id taskId) (scheduled_tasks s) = Some t"
    and "intervalMs task = None"
  shows "\<exists>s'. rescheduleIfRecurring now now' task s = (Inr (), s')
           \<and> findOne (has_id taskId) (scheduled_tasks s')
               = Some (t\<lparr>status := Completed, updatedAt := now'\<rparr>)"
proof -
  have "rescheduleIfRecurring now now' task s = markCompleted now' taskId False s"
    using assms(3) assms(5) by (simp add: rescheduleIfRecurring_def falsy_def)
  then show ?thesis
    using markCompleted_stored [OF assms(1) assms(2) assms(4), of now' False] by auto
qed

lemma rescheduleIfRecurring_recurring:
  assumes "collection s"
    and "topology_connected (client s)"
    and "doc_id task = Some taskId"
    and "findOne (has_id taskId) (scheduled_tasks s) = Some t"
    and "intervalMs task = Some (Num i)"
    and "i \<noteq> 0"
  shows "\<exists>s'. rescheduleIfRecurring now now' task s = (Inr (), s')
           \<and> findOne (has_id taskId) (scheduled_tasks s')
               = Some (t\<lparr>status := Pending,
                         nextRunAt := (if \<bar>now + i\<bar> \<le> max_time then now + i else 0),
                         updatedAt := now'\<rparr>)"
proof -
  have "rescheduleIfRecurring now now' task s
      = updateNextRun now' taskId (new_Date (Num (now + i))) s"
    using assms(3) assms(5) assms(6)
    by (simp add: rescheduleIfRecurring_def falsy_def num_add_def)
  moreover have "bson_date (new_Date (Num (now + i)))
      = (if \<bar>now + i\<bar> \<le> max_time then now + i else 0)"
    by (simp add: bson_date_def new_Date_def)
  ultimately show ?thesis
    using updateNextRun_stored [OF assms(1) assms(2) assms(4), of now' "new_Date (Num (now + i))"]
    by auto
qed

text \<open>Beyond the range of \<open>Date\<close> the new run time is the invalid date, stored as
  the time value 0.\<close>

lemma rescheduleIfRecurring_beyond_range_run:
  "rescheduleIfRecurring 1700000000000 1700000000001
      (example_task\<lparr>intervalMs := Some (Num 9000000000000000), status := Running\<rparr>)
      (example_db [example_task\<lparr>intervalMs := Some (Num 9000000000000000), status := Running\<rparr>] [])
     = (Inr (), example_db
             [example_task\<lparr>intervalMs := Some (Num 9000000000000000), status := Pending,
                nextRunAt := 0, updatedAt := 1700000000001\<rparr>] [])"
  by (simp add: rescheduleIfRecurring_def falsy_def updateNextRun_def executeOperation_def
      num_add_def new_Date_def max_time_def bson_date_def example_db_def example_task_def
      has_id_def)

section \<open>What findDueTasks returns on a connected store\<close>

lemma findDueTasks_properties:
  assumes "collection s"
    and "topology_connected (client s)"
    and "mset (natural (scheduled_tasks s)) = mset (scheduled_tasks s)"
  shows "\<exists>ts. findDueTasks natural now limit s = (Inr ts, s)
           \<and> (\<forall>t\<in>set ts. t \<in> set (scheduled_tasks s) \<and> status t = Pending \<and> nextRunAt t \<le> now)
           \<and> sorted (map nextRunAt ts)
           \<and> (limit \<noteq> 0 \<longrightarrow> length ts \<le> nat \<bar>limit\<bar>)
           \<and> (limit = 0 \<longrightarrow>
                set ts = {t \<in> set (scheduled_tasks s). status t = Pending \<and> nextRunAt t \<le> now})
           \<and> (\<forall>u\<in>set (scheduled_tasks s).
                 status u = Pending \<and> nextRunAt u \<le> now \<and> u \<notin> set ts
                 \<longrightarrow> (\<forall>t\<in>set ts. nextRunAt t \<le> nextRunAt u))"
proof -
  let ?due = "sort_asc nextRunAt
     (cursor_find natural (\<lambda>t. status t = Pending \<and> nextRunAt t \<le> now) (scheduled_tasks s))"
  let ?ts = "cursor_limit limit ?due"
  have res: "findDueTasks natural now limit s = (Inr ?ts, s)"
    using assms(1) assms(2) by (simp add: findDueTasks_def executeOperation_connected)
  have set_due: "set ?due = {t \<in> set (scheduled_tasks s). status t = Pending \<and> nextRunAt t \<le> now}"
    using set_cursor_find [of natural "scheduled_tasks s"] assms(3) by (simp add: sort_asc_def)
  have sorted_due: "sorted (map nextRunAt ?due)"
    by (simp add: sort_asc_def)
  obtain k where k: "?ts = take k ?due"
    using cursor_limit_take by blast
  have sub: "set ?ts \<subseteq> set ?due"
    unfolding k by (rule set_take_subset)
  have p1: "\<forall>t\<in>set ?ts. t \<in> set (scheduled_tasks s) \<and> status t = Pending \<and> nextRunAt t \<le> now"
    using sub set_due by blast
  have p2: "sorted (map nextRunAt ?ts)"
    unfolding k using sorted_due by (simp add: take_map [symmetric])
  have p3: "limit \<noteq> 0 \<longrightarrow> length ?ts \<le> nat \<bar>limit\<bar>"
    by (simp add: cursor_limit_def)
  have p4: "limit = 0 \<longrightarrow>
      set ?ts = {t \<in> set (scheduled_tasks s). status t = Pending \<and> nextRunAt t \<le> now}"
    using set_due by (simp add: cursor_limit_def)
  have p5: "\<forall>u\<in>set (scheduled_tasks s).
      status u = Pending \<and> nextRunAt u \<le> now \<and> u \<notin> set ?ts
      \<longrightarrow> (\<forall>t\<in>set ?ts. nextRunAt t \<le> nextRunAt u)"
  proof (intro ballI impI)
    fix u t
    assume u: "u \<in> set (scheduled_tasks s)"
      and c: "status u = Pending \<and> nextRunAt u \<le> now \<and> u \<notin> set ?ts"
      and t: "t \<in> set ?ts"
    have "u \<in> set ?due"
      using u c set_due by blast
    then show "nextRunAt t \<le> nextRunAt u"
      using sorted_take_le_rest [OF sorted_due, of t k u] t c unfolding k by blast
  qed
  from res p1 p2 p3 p4 p5 show ?thesis
    by blast
qed

text \<open>Four stored tasks: due at 5, not due before 20, running, due at 0. At time 10
  and with limit 2 the two due pending tasks come back, the earlier first, whatever the
  order in which the server goes through them.\<close>

lemma findDueTasks_limit_two_run:
  "findDueTasks rev 10 2 (example_db
      [example_task\<lparr>doc_id := Some 2, nextRunAt := 5\<rparr>,
       example_task\<lparr>doc_id := Some 4, nextRunAt := 20\<rparr>,
       example_task\<lparr>doc_id := Some 3, nextRunAt := 3, status := Running\<rparr>,
       example_task] [])
     = (Inr [example_task, example_task\<lparr>doc_id := Some 2, nextRunAt := 5\<rparr>],
        example_db
      [example_task\<lparr>doc_id := Some 2, nextRunAt := 5\<rparr>,
       example_task\<lparr>doc_id := Some 4, nextRunAt := 20\<rparr>,
       example_task\<lparr>doc_id := Some 3, nextRunAt := 3, status := Running\<rparr>,
       example_task] [])"
  by (simp add: findDueTasks_def executeOperation_def cursor_limit_def sort_asc_def
      cursor_find_def example_db_def example_task_def)

section \<open>The claims\<close>

subsection \<open>C1: markRunning as the claim operation\<close>

text \<open>
  C1, as the code has it: \<open>markRunning\<close> carries no condition on the status. On a
  store whose field \<open>collection\<close> is assigned and whose client is connected, it sets
  the stored task with the given \<open>_id\<close> to \<open>running\<close> and its \<open>updatedAt\<close>
  to the clock read, whatever the status was; the task's other fields, the other tasks
  and the rest of the state stay as they were. It returns no value that tells a
  successful claim from a lost one, and a further call on the same \<open>_id\<close> is
  carried out in the same way: it overwrites \<open>updatedAt\<close> again.
\<close>

theorem markRunning_unconditional:
  assumes "collection s"
    and "topology_connected (client s)"
    and "findOne (has_id taskId) (scheduled_tasks s) = Some t"
  shows "\<exists>s'. markRunning now taskId s = (Inr (), s')
           \<and> findOne (has_id taskId) (scheduled_tasks s')
               = Some (t\<lparr>status := Running, updatedAt := now\<rparr>)
           \<and> filter (\<lambda>d. \<not> has_id taskId d) (scheduled_tasks s')
               = filter (\<lambda>d. \<not> has_id taskId d) (scheduled_tasks s)
           \<and> s'\<lparr>scheduled_tasks := scheduled_tasks s\<rparr> = s
           \<and> (\<exists>s''. markRunning now2 taskId s' = (Inr (), s'')
                 \<and> findOne (has_id taskId) (scheduled_tasks s'')
                     = Some (t\<lparr>status := Running, updatedAt := now2\<rparr>))"
proof -
  obtain s' where s': "markRunning now taskId s = (Inr (), s')"
      "findOne (has_id taskId) (scheduled_tasks s')
         = Some (t\<lparr>status := Running, updatedAt := now\<rparr>)"
      "filter (\<lambda>d. \<not> has_id taskId d) (scheduled_tasks s')
         = filter (\<lambda>d. \<not> has_id taskId d) (scheduled_tasks s)"
      "s'\<lparr>scheduled_tasks := scheduled_tasks s\<rparr> = s"
    using markRunning_stored [OF assms] by blast
  have "collection (s'\<lparr>scheduled_tasks := scheduled_tasks s\<rparr>)
      \<and> topology_connected (client (s'\<lparr>scheduled_tasks := scheduled_tasks s\<rparr>))"
    using s'(4) assms(1) assms(2) by simp
  then have c': "collection s'" and t': "topology_connected (client s')"
    by simp_all
  obtain s'' where s'': "markRunning now2 taskId s' = (Inr (), s'')"
      "findOne (has_id taskId) (scheduled_tasks s'')
         = Some (t\<lparr>status := Running, updatedAt := now, status := Running, updatedAt := now2\<rparr>)"
    using markRunning_stored [OF c' t' s'(2), of now2] by auto
  have "t\<lparr>status := Running, updatedAt := now, status := Running, updatedAt := now2\<rparr>
      = t\<lparr>status := Running, updatedAt := now2\<rparr>"
    by simp
  with s' s'' show ?thesis
    by auto
qed

text \<open>The instance at a task that is already completed: the call moves it to
  \<open>running\<close>.\<close>

theorem markRunning_unconditional_witness:
  "collection (example_db [example_task\<lparr>status := Completed\<rparr>] [])
   \<and> topology_connected (client (example_db [example_task\<lparr>status := Completed\<rparr>] []))
   \<and> findOne (has_id 1) (scheduled_tasks (example_db [example_task\<lparr>status := Completed\<rparr>] []))
       = Some (example_task\<lparr>status := Completed\<rparr>)
   \<and> (\<exists>s'. markRunning 7 1 (example_db [example_task\<lparr>status := Completed\<rparr>] []) = (Inr (), s')
         \<and> findOne (has_id 1) (scheduled_tasks s')
             = Some (example_task\<lparr>status := Running, updatedAt := 7\<rparr>))"
proof -
  let ?s = "example_db [example_task\<lparr>status := Completed\<rparr>] []"
  have h1: "collection ?s"
    by (simp add: example_db_def)
  have h2: "topology_connected (client ?s)"
    by (simp add: example_db_def)
  have h3: "findOne (has_id 1) (scheduled_tasks ?s) = Some (example_task\<lparr>status := Completed\<rparr>)"
    by (simp add: example_db_def example_task_def findOne_def has_id_def)
  from markRunning_unconditional [OF h1 h2 h3, of 7 9] h1 h2 h3 show ?thesis
    by auto
qed

text \<open>Two callers claim the pending task 1, at times 7 and 9. The second call finds the
  task running and does not leave it unchanged.\<close>

theorem markRunning_counterexample:
  "markRunning 7 1 (example_db [example_task] [])
     = (Inr (), example_db [example_task\<lparr>status := Running, updatedAt := 7\<rparr>] [])
   \<and> markRunning 9 1 (example_db [example_task\<lparr>status := Running, updatedAt := 7\<rparr>] [])
     = (Inr (), example_db [example_task\<lparr>status := Running, updatedAt := 9\<rparr>] [])
   \<and> example_db [example_task\<lparr>status := Running, updatedAt := 9\<rparr>] []
     \<noteq> example_db [example_task\<lparr>status := Running, updatedAt := 7\<rparr>] []"
  by (simp add: markRunning_def executeOperation_def example_db_def example_task_def has_id_def)

subsection \<open>C2: createTask\<close>

text \<open>
  C2, as the code has it: \<open>createTask\<close> validates nothing. On a store whose field
  \<open>collection\<close> is assigned and whose client is connected, for every handler name
  (the empty one too), every \<open>Date\<close> of the next run (the invalid one too) and
  every generated \<open>_id\<close> that is not taken, the call succeeds, returns the
  \<open>_id\<close> and appends one task to the collection, with the fields given, the status
  \<open>pending\<close> and both audit times equal to the clock read. The invalid date is
  stored as the time value 0.
\<close>

theorem createTask_no_validation:
  assumes "collection s"
    and "topology_connected (client s)"
    and "\<not> list_ex (has_id i) (scheduled_tasks s)"
  shows "createTask now i uid hname tdata nextRun interval s
     = (Inr i, s\<lparr>scheduled_tasks := scheduled_tasks s @
              [\<lparr>doc_id = Some i, userId = uid, createdAt = now, updatedAt = now,
                handlerName = hname,
                taskData = (case tdata of None \<Rightarrow> ''{}'' | Some d \<Rightarrow> d),
                nextRunAt = (case nextRun of Date t \<Rightarrow> t | InvalidDate \<Rightarrow> 0),
                intervalMs = interval, status = Pending\<rparr>]\<rparr>)"
  using assms
  by (simp add: createTask_def insertOne_def executeOperation_connected bson_date_def)

theorem createTask_no_validation_witness:
  "collection (example_db [example_task] [])
   \<and> topology_connected (client (example_db [example_task] []))
   \<and> \<not> list_ex (has_id 2) (scheduled_tasks (example_db [example_task] []))
   \<and> createTask 5 2 ''u'' ''tweet'' (Some ''{a:1}'') (Date 10) (Some (Num 60000))
        (example_db [example_task] [])
     = (Inr 2, example_db
                [example_task,
                 \<lparr>doc_id = Some 2, userId = ''u'', createdAt = 5, updatedAt = 5,
                  handlerName = ''tweet'', taskData = ''{a:1}'', nextRunAt = 10,
                  intervalMs = Some (Num 60000), status = Pending\<rparr>] [])"
proof -
  let ?s = "example_db [example_task] []"
  have h1: "collection ?s"
    by (simp add: example_db_def)
  have h2: "topology_connected (client ?s)"
    by (simp add: example_db_def)
  have h3: "\<not> list_ex (has_id 2) (scheduled_tasks ?s)"
    by (simp add: example_db_def example_task_def has_id_def)
  from createTask_no_validation [OF h1 h2 h3, of 5 "''u''" "''tweet''" "Some ''{a:1}''" "Date 10"
      "Some (Num 60000)"] h1 h2 h3
  show ?thesis
    by (simp add: example_db_def)
qed

text \<open>The call with the empty handler name and the call with the invalid date both
  succeed, and the task is stored.\<close>

theorem createTask_counterexample:
  "createTask 5 2 ''u'' [] None (Date 10) None (example_db [example_task] [])
     = (Inr 2, example_db
                [example_task,
                 \<lparr>doc_id = Some 2, userId = ''u'', createdAt = 5, updatedAt = 5,
                  handlerName = [], taskData = ''{}'', nextRunAt = 10,
                  intervalMs = None, status = Pending\<rparr>] [])
   \<and> createTask 5 2 ''u'' ''h'' None InvalidDate None (example_db [example_task] [])
     = (Inr 2, example_db
                [example_task,
                 \<lparr>doc_id = Some 2, userId = ''u'', createdAt = 5, updatedAt = 5,
                  handlerName = ''h'', taskData = ''{}'', nextRunAt = 0,
                  intervalMs = None, status = Pending\<rparr>] [])"
  by (simp add: createTask_def insertOne_def executeOperation_def bson_date_def
      example_db_def example_task_def has_id_def)


subsection \<open>C3: the recurrence policy\<close>

text \<open>
  C3, at a task whose \<open>intervalMs\<close> is present and 0: the run of
  \<open>rescheduleIfRecurring\<close> on a connected store that holds the running task, with
  \<open>Date.now()\<close> reading 100. The stored task ends \<open>completed\<close>, with its
  \<open>nextRunAt\<close> left at 0; it is not set back to \<open>pending\<close>, which is what the
  claim states for a task whose interval is set.
\<close>

theorem rescheduleIfRecurring_interval_zero_run:
  "rescheduleIfRecurring 100 101 (example_task\<lparr>intervalMs := Some (Num 0), status := Running\<rparr>)
      (example_db [example_task\<lparr>intervalMs := Some (Num 0), status := Running\<rparr>] [])
     = (Inr (), example_db
             [example_task\<lparr>intervalMs := Some (Num 0), status := Completed, updatedAt := 101\<rparr>]
             [])"
  by (simp add: rescheduleIfRecurring_def falsy_def markCompleted_def executeOperation_def
      example_db_def example_task_def has_id_def)

subsection \<open>C4: findDueTasks\<close>

text \<open>
  C4, at the limit 0: the run of \<open>findDueTasks\<close> at time 10 on a connected store
  that holds two pending tasks, due at 0 and at 5. Both come back, two tasks where the
  claim allows at most 0: the cursor takes the limit 0 as no limit.
\<close>

theorem findDueTasks_limit_zero_run:
  "findDueTasks (\<lambda>ds. ds) 10 0
      (example_db [example_task, example_task\<lparr>doc_id := Some 2, nextRunAt := 5\<rparr>] [])
     = (Inr [example_task, example_task\<lparr>doc_id := Some 2, nextRunAt := 5\<rparr>],
        example_db [example_task, example_task\<lparr>doc_id := Some 2, nextRunAt := 5\<rparr>] [])"
  by (simp add: findDueTasks_def executeOperation_def cursor_limit_def sort_asc_def
      cursor_find_def example_db_def example_task_def)

subsection \<open>C5: terminal statuses\<close>

text \<open>
  C5, as the code has it: no status is protected. On a store whose field
  \<open>collection\<close> is assigned and whose client is connected, \<open>markCompleted\<close>
  sets the stored task with the given \<open>_id\<close> to \<open>failed\<close> or to
  \<open>completed\<close>, as the call says, and its \<open>updatedAt\<close> to the clock read,
  whatever the status was, also when it was \<open>completed\<close> or \<open>failed\<close> already;
  the task's other fields, the other tasks and the rest of the state stay as they were.
\<close>

theorem markCompleted_unconditional:
  assumes "collection s"
    and "topology_connected (client s)"
    and "findOne (has_id taskId) (scheduled_tasks s) = Some t"
  shows "\<exists>s'. markCompleted now taskId failed s = (Inr (), s')
           \<and> findOne (has_id taskId) (scheduled_tasks s')
               = Some (t\<lparr>status := (if failed then Failed else Completed), updatedAt := now\<rparr>)
           \<and> filter (\<lambda>d. \<not> has_id taskId d) (scheduled_tasks s')
               = filter (\<lambda>d. \<not> has_id taskId d) (scheduled_tasks s)
           \<and> s'\<lparr>scheduled_tasks := scheduled_tasks s\<rparr> = s"
  using assms by (rule markCompleted_stored)

theorem markCompleted_unconditional_witness:
  "collection (example_db [example_task\<lparr>status := Failed\<rparr>] [])
   \<and> topology_connected (client (example_db [example_task\<lparr>status := Failed\<rparr>] []))
   \<and> findOne (has_id 1) (scheduled_tasks (example_db [example_task\<lparr>status := Failed\<rparr>] []))
       = Some (example_task\<lparr>status := Failed\<rparr>)
   \<and> (\<exists>s'. markCompleted 7 1 False (example_db [example_task\<lparr>status := Failed\<rparr>] [])
             = (Inr (), s')
         \<and> findOne (has_id 1) (scheduled_tasks s')
             = Some (example_task\<lparr>status := Completed, updatedAt := 7\<rparr>))"
proof -
  let ?s = "example_db [example_task\<lparr>status := Failed\<rparr>] []"
  have h1: "collection ?s"
    by (simp add: example_db_def)
  have h2: "topology_connected (client ?s)"
    by (simp add: example_db_def)
  have h3: "findOne (has_id 1) (scheduled_tasks ?s) = Some (example_task\<lparr>status := Failed\<rparr>)"
    by (simp add: example_db_def example_task_def findOne_def has_id_def)
  from markCompleted_unconditional [OF h1 h2 h3, of 7 False] h1 h2 h3 show ?thesis
    by auto
qed

text \<open>A completed task becomes a failed one, with a new \<open>updatedAt\<close>.\<close>

theorem markCompleted_counterexample:
  "markCompleted 7 1 True (example_db [example_task\<lparr>status := Completed\<rparr>] [])
     = (Inr (), example_db [example_task\<lparr>status := Failed, updatedAt := 7\<rparr>] [])"
  by (simp add: markCompleted_def executeOperation_def example_db_def example_task_def
      has_id_def)

subsection \<open>C6: addMessage\<close>

text \<open>
  C6: on a store whose field \<open>orchestratorCollection\<close> is assigned and whose client
  is connected, for a stored chat with the given \<open>_id\<close>, \<open>addMessage\<close> puts
  exactly one message, made of the role, name and data given and of the clock read, after
  the chat's messages, which stay as they were and where they were, and sets the chat's
  \<open>updatedAt\<close> to the second clock read. The other chats, the position of every chat
  and the rest of the state do not change.
\<close>

theorem addMessage_appends:
  assumes "orchestratorCollection s"
    and "topology_connected (client s)"
    and "findOne (has_id orchestratorId) (orchestrators s) = Some c"
  shows "\<exists>s'. addMessage ts now orchestratorId r n d s = (Inr (), s')
           \<and> findOne (has_id orchestratorId) (orchestrators s')
               = Some (c\<lparr>messages := messages c @ [\<lparr>role = r, name = n, data = d, timestamp = ts\<rparr>],
                         updatedAt := now\<rparr>)
           \<and> filter (\<lambda>x. \<not> has_id orchestratorId x) (orchestrators s')
               = filter (\<lambda>x. \<not> has_id orchestratorId x) (orchestrators s)
           \<and> map doc_id (orchestrators s') = map doc_id (orchestrators s)
           \<and> s'\<lparr>orchestrators := orchestrators s\<rparr> = s"
proof -
  let ?upd = "\<lambda>c::orchestratorChat.
    c\<lparr>messages := messages c @ [\<lparr>role = r, name = n, data = d, timestamp = ts\<rparr>],
      updatedAt := now\<rparr>"
  let ?s' = "s\<lparr>orchestrators := updateOne (has_id orchestratorId) ?upd (orchestrators s)\<rparr>"
  have keep: "\<forall>x. has_id orchestratorId x \<longrightarrow> has_id orchestratorId (?upd x)"
    by (simp add: has_id_chat_upd)
  have "addMessage ts now orchestratorId r n d s = (Inr (), ?s')"
    using assms(1) assms(2) by (simp add: addMessage_def executeOperation_connected)
  moreover have "?s'\<lparr>orchestrators := orchestrators s\<rparr> = s"
    by simp
  moreover have "map doc_id (orchestrators ?s') = map doc_id (orchestrators s)"
    by (simp add: updateOne_map_same)
  ultimately show ?thesis
    using updateOne_unconditional [OF keep assms(3)] by auto
qed

text \<open>A chat that holds one message receives a second one.\<close>

theorem addMessage_appends_witness:
  "orchestratorCollection
     (example_db [] [example_chat\<lparr>messages :=
        [\<lparr>role = Input, name = ''twitter'', data = ''hi'', timestamp = 2\<rparr>]\<rparr>])
   \<and> topology_connected (client
     (example_db [] [example_chat\<lparr>messages :=
        [\<lparr>role = Input, name = ''twitter'', data = ''hi'', timestamp = 2\<rparr>]\<rparr>]))
   \<and> findOne (has_id 1) (orchestrators
       (example_db [] [example_chat\<lparr>messages :=
          [\<lparr>role = Input, name = ''twitter'', data = ''hi'', timestamp = 2\<rparr>]\<rparr>]))
     = Some (example_chat\<lparr>messages :=
          [\<lparr>role = Input, name = ''twitter'', data = ''hi'', timestamp = 2\<rparr>]\<rparr>)
   \<and> (\<exists>s'. addMessage 3 4 1 Output ''reply'' ''hello''
              (example_db [] [example_chat\<lparr>messages :=
                 [\<lparr>role = Input, name = ''twitter'', data = ''hi'', timestamp = 2\<rparr>]\<rparr>])
             = (Inr (), s')
         \<and> findOne (has_id 1) (orchestrators s')
             = Some (example_chat\<lparr>messages :=
                  [\<lparr>role = Input, name = ''twitter'', data = ''hi'', timestamp = 2\<rparr>,
                   \<lparr>role = Output, name = ''reply'', data = ''hello'', timestamp = 3\<rparr>],
                  updatedAt := 4\<rparr>))"
proof -
  let ?c = "example_chat\<lparr>messages :=
        [\<lparr>role = Input, name = ''twitter'', data = ''hi'', timestamp = 2\<rparr>]\<rparr>"
  let ?s = "example_db [] [?c]"
  have h1: "orchestratorCollection ?s"
    by (simp add: example_db_def)
  have h2: "topology_connected (client ?s)"
    by (simp add: example_db_def)
  have h3: "findOne (has_id 1) (orchestrators ?s) = Some ?c"
    by (simp add: example_db_def example_chat_def findOne_def has_id_def)
  from addMessage_appends [OF h1 h2 h3, of 3 4 Output "''reply''" "''hello''"] h1 h2 h3
  show ?thesis
    by auto
qed

subsection \<open>C7: getMessages\<close>

text \<open>
  C7: on a store whose field \<open>orchestratorCollection\<close> is assigned and whose client
  is connected, \<open>getMessages\<close> does not fail and changes nothing. It returns the
  messages of the stored chat with the given \<open>_id\<close>, all of them and in the stored
  order, and the empty list when no stored chat has that \<open>_id\<close>.
\<close>

theorem getMessages_log_or_empty:
  assumes "orchestratorCollection s"
    and "topology_connected (client s)"
  shows "\<exists>ms. getMessages orchestratorId s = (Inr ms, s)
           \<and> (\<forall>c. findOne (has_id orchestratorId) (orchestrators s) = Some c
                  \<longrightarrow> ms = messages c)
           \<and> ((\<forall>c\<in>set (orchestrators s). doc_id c \<noteq> Some orchestratorId) \<longrightarrow> ms = [])"
proof (cases "findOne (has_id orchestratorId) (orchestrators s)")
  case None
  then show ?thesis
    using assms by (simp add: getMessages_def executeOperation_connected)
next
  case (Some c)
  then have "c \<in> set (orchestrators s) \<and> has_id orchestratorId c"
    by (auto simp: findOne_def find_Some_iff)
  then have ex: "\<not> (\<forall>c\<in>set (orchestrators s). doc_id c \<noteq> Some orchestratorId)"
    by (auto simp: has_id_def)
  have res: "getMessages orchestratorId s = (Inr (messages c), s)"
    using assms Some by (simp add: getMessages_def executeOperation_connected)
  show ?thesis
  proof (intro exI conjI)
    show "getMessages orchestratorId s = (Inr (messages c), s)"
      by (rule res)
    show "\<forall>c'. findOne (has_id orchestratorId) (orchestrators s) = Some c'
        \<longrightarrow> messages c = messages c'"
      using Some by simp
    show "(\<forall>c\<in>set (orchestrators s). doc_id c \<noteq> Some orchestratorId) \<longrightarrow> messages c = []"
      using ex by blast
  qed
qed

text \<open>The chat 1 holds two messages; there is no chat 9.\<close>

theorem getMessages_log_or_empty_witness:
  "orchestratorCollection
     (example_db [] [example_chat\<lparr>messages :=
        [\<lparr>role = Input, name = ''twitter'', data = ''hi'', timestamp = 2\<rparr>,
         \<lparr>role = Output, name = ''reply'', data = ''hello'', timestamp = 3\<rparr>]\<rparr>])
   \<and> topology_connected (client
     (example_db [] [example_chat\<lparr>messages :=
        [\<lparr>role = Input, name = ''twitter'', data = ''hi'', timestamp = 2\<rparr>,
         \<lparr>role = Output, name = ''reply'', data = ''hello'', timestamp = 3\<rparr>]\<rparr>]))
   \<and> fst (getMessages 1
       (example_db [] [example_chat\<lparr>messages :=
          [\<lparr>role = Input, name = ''twitter'', data = ''hi'', timestamp = 2\<rparr>,
           \<lparr>role = Output, name = ''reply'', data = ''hello'', timestamp = 3\<rparr>]\<rparr>]))
     = Inr [\<lparr>role = Input, name = ''twitter'', data = ''hi'', timestamp = 2\<rparr>,
            \<lparr>role = Output, name = ''reply'', data = ''hello'', timestamp = 3\<rparr>]
   \<and> fst (getMessages 9
       (example_db [] [example_chat\<lparr>messages :=
          [\<lparr>role = Input, name = ''twitter'', data = ''hi'', timestamp = 2\<rparr>,
           \<lparr>role = Output, name = ''reply'', data = ''hello'', timestamp = 3\<rparr>]\<rparr>]))
     = Inr []"
proof -
  let ?s = "example_db [] [example_chat\<lparr>messages :=
        [\<lparr>role = Input, name = ''twitter'', data = ''hi'', timestamp = 2\<rparr>,
         \<lparr>role = Output, name = ''reply'', data = ''hello'', timestamp = 3\<rparr>]\<rparr>]"
  have h1: "orchestratorCollection ?s"
    by (simp add: example_db_def)
  have h2: "topology_connected (client ?s)"
    by (simp add: example_db_def)
  from getMessages_log_or_empty [OF h1 h2, of 1] getMessages_log_or_empty [OF h1 h2, of 9] h1 h2
  show ?thesis
    by (auto simp: example_db_def example_chat_def findOne_def has_id_def)
qed


subsection \<open>C8: the chats of a user\<close>

text \<open>
  C8, as the code has it: the class lists the chats of a user in two ways. On a store
  whose client is connected, and whatever the order in which the server goes through the
  collection, \<open>getOrchestratorsByUserId\<close> returns exactly the stored chats of the
  user, each as often as it is stored, ordered by \<open>createdAt\<close> descending, newest
  first. \<open>findOrchestratorsByUser\<close> does not sort: it returns exactly the stored
  chats of the user in the order in which the server yields them.
\<close>

theorem sessions_of_user:
  assumes "topology_connected (client s)"
    and "mset (natural (orchestrators s)) = mset (orchestrators s)"
  shows "(\<exists>cs. getOrchestratorsByUserId natural uid s = (Inr cs, s)
            \<and> mset cs = mset (filter (\<lambda>c. userId c = uid) (orchestrators s))
            \<and> sorted_wrt (\<lambda>a b. createdAt b \<le> createdAt a) cs)
         \<and> (orchestratorCollection s
              \<longrightarrow> (\<exists>cs. findOrchestratorsByUser natural uid s = (Inr cs, s)
                     \<and> cs = filter (\<lambda>c. userId c = uid) (natural (orchestrators s))
                     \<and> mset cs = mset (filter (\<lambda>c. userId c = uid) (orchestrators s))))"
proof -
  let ?found = "cursor_find natural (\<lambda>c. userId c = uid) (orchestrators s)"
  let ?cs = "sort_desc createdAt ?found"
  have ms: "mset ?found = mset (filter (\<lambda>c. userId c = uid) (orchestrators s))"
    using mset_cursor_find [of natural "orchestrators s"] assms(2) by simp
  have "getOrchestratorsByUserId natural uid s = (Inr ?cs, s)"
    using assms(1) by (simp add: getOrchestratorsByUserId_def executeOperation_connected)
  moreover have "mset ?cs = mset (filter (\<lambda>c. userId c = uid) (orchestrators s))"
    using ms by (simp add: sort_desc_def)
  moreover have "sorted_wrt (\<lambda>a b. createdAt b \<le> createdAt a) ?cs"
    by (rule sort_desc_sorted)
  moreover have "orchestratorCollection s
      \<longrightarrow> findOrchestratorsByUser natural uid s = (Inr ?found, s)"
    using assms(1) by (simp add: findOrchestratorsByUser_def executeOperation_connected)
  moreover have "?found = filter (\<lambda>c. userId c = uid) (natural (orchestrators s))"
    by (simp add: cursor_find_def)
  ultimately show ?thesis
    using ms by auto
qed

text \<open>Three chats, created at 1, 2 and 3; the second belongs to another user; the
  server goes through them from the last to the first.\<close>

theorem sessions_of_user_witness:
  "topology_connected (client
     (example_db [] [example_chat,
        example_chat\<lparr>doc_id := Some 2, userId := ''v'', createdAt := 2\<rparr>,
        example_chat\<lparr>doc_id := Some 3, createdAt := 3\<rparr>]))
   \<and> mset (rev (orchestrators
       (example_db [] [example_chat,
          example_chat\<lparr>doc_id := Some 2, userId := ''v'', createdAt := 2\<rparr>,
          example_chat\<lparr>doc_id := Some 3, createdAt := 3\<rparr>])))
     = mset (orchestrators
       (example_db [] [example_chat,
          example_chat\<lparr>doc_id := Some 2, userId := ''v'', createdAt := 2\<rparr>,
          example_chat\<lparr>doc_id := Some 3, createdAt := 3\<rparr>]))
   \<and> orchestratorCollection
       (example_db [] [example_chat,
          example_chat\<lparr>doc_id := Some 2, userId := ''v'', createdAt := 2\<rparr>,
          example_chat\<lparr>doc_id := Some 3, createdAt := 3\<rparr>])
   \<and> fst (getOrchestratorsByUserId rev ''u''
       (example_db [] [example_chat,
          example_chat\<lparr>doc_id := Some 2, userId := ''v'', createdAt := 2\<rparr>,
          example_chat\<lparr>doc_id := Some 3, createdAt := 3\<rparr>]))
     = Inr [example_chat\<lparr>doc_id := Some 3, createdAt := 3\<rparr>, example_chat]
   \<and> fst (findOrchestratorsByUser rev ''u''
       (example_db [] [example_chat,
          example_chat\<lparr>doc_id := Some 2, userId := ''v'', createdAt := 2\<rparr>,
          example_chat\<lparr>doc_id := Some 3, createdAt := 3\<rparr>]))
     = Inr [example_chat\<lparr>doc_id := Some 3, createdAt := 3\<rparr>, example_chat]"
proof -
  let ?s = "example_db [] [example_chat,
        example_chat\<lparr>doc_id := Some 2, userId := ''v'', createdAt := 2\<rparr>,
        example_chat\<lparr>doc_id := Some 3, createdAt := 3\<rparr>]"
  have h1: "topology_connected (client ?s)"
    by (simp add: example_db_def)
  have h2: "mset (rev (orchestrators ?s)) = mset (orchestrators ?s)"
    by simp
  have h3: "orchestratorCollection ?s"
    by (simp add: example_db_def)
  have g: "fst (getOrchestratorsByUserId rev ''u'' ?s)
      = Inr [example_chat\<lparr>doc_id := Some 3, createdAt := 3\<rparr>, example_chat]"
    by (simp add: getOrchestratorsByUserId_def executeOperation_def sort_desc_def
        cursor_find_def example_db_def example_chat_def)
  have f: "fst (findOrchestratorsByUser rev ''u'' ?s)
      = Inr [example_chat\<lparr>doc_id := Some 3, createdAt := 3\<rparr>, example_chat]"
    by (simp add: findOrchestratorsByUser_def executeOperation_def cursor_find_def
        example_db_def example_chat_def)
  from sessions_of_user [where s = ?s and natural = rev and uid = "''u''", OF h1 h2]
    h1 h2 h3 g f
  show ?thesis
    by blast
qed

text \<open>When the server yields the chats in the order of their insertion,
  \<open>findOrchestratorsByUser\<close> returns the older chat first.\<close>

theorem findOrchestratorsByUser_counterexample:
  "findOrchestratorsByUser (\<lambda>ds. ds) ''u''
      (example_db [] [example_chat, example_chat\<lparr>doc_id := Some 2, createdAt := 2\<rparr>])
     = (Inr [example_chat, example_chat\<lparr>doc_id := Some 2, createdAt := 2\<rparr>],
        example_db [] [example_chat, example_chat\<lparr>doc_id := Some 2, createdAt := 2\<rparr>])
   \<and> createdAt example_chat < createdAt (example_chat\<lparr>doc_id := Some 2, createdAt := 2\<rparr>)"
  by (simp add: findOrchestratorsByUser_def executeOperation_def cursor_find_def
      example_db_def example_chat_def)

subsection \<open>C9: connect\<close>

text \<open>
  C9: \<open>connect\<close> is idempotent. After a \<open>connect\<close> that succeeded, a second
  \<open>connect\<close> succeeds and leaves the state as it was: the client stays connected and
  opens no further connection, the two fields stay assigned, the three indexes exist
  already, and no document changes.
\<close>

theorem connect_idempotent:
  assumes "connect s = (Inr (), s')"
  shows "connect s' = (Inr (), s')
         \<and> topology_connected (client s')
         \<and> connections_opened (client (snd (connect s'))) = connections_opened (client s')"
proof -
  note ok = connect_success [OF assms]
  have c1: "(if connect_listeners (client s') = 0 then client_connect (client s')
             else client s') = client s'"
    using ok(1) by (simp add: client_connect_idem)
  have ex: "executeOperation (client s') = Inr (client s')"
    using ok(1) by (rule executeOperation_connected)
  have i1: "createIndex (''nextRunAt'', 1) (scheduled_tasks_indexes s') = scheduled_tasks_indexes s'"
    using ok(4) by (rule createIndex_present)
  have i2: "createIndex (''status'', 1) (scheduled_tasks_indexes s') = scheduled_tasks_indexes s'"
    using ok(5) by (rule createIndex_present)
  have i3: "createIndex (''userId'', 1) (orchestrators_indexes s') = orchestrators_indexes s'"
    using ok(6) by (rule createIndex_present)
  have "connect s' =
      (Inr (), s'\<lparr>client := client s', collection := True,
                  scheduled_tasks_indexes := scheduled_tasks_indexes s',
                  orchestratorCollection := True,
                  orchestrators_indexes := orchestrators_indexes s'\<rparr>)"
    unfolding connect_eq [of s'] c1 by (simp add: ex i1 i2 i3)
  then have "connect s' = (Inr (), s')"
    using ok(2) ok(3) by simp
  then show ?thesis
    using ok(1) by simp
qed

text \<open>The first \<open>connect\<close> of a new store opens one connection; the second opens
  none.\<close>

theorem connect_idempotent_witness:
  "connect fresh_db = (Inr (), example_db [] [])
   \<and> connect (example_db [] []) = (Inr (), example_db [] [])
   \<and> topology_connected (client (example_db [] []))
   \<and> connections_opened (client (example_db [] [])) = 1"
proof -
  have h: "connect fresh_db = (Inr (), example_db [] [])"
    by (simp add: connect_eq fresh_db_def example_db_def client_connect_def
        executeOperation_def createIndex_def)
  from connect_idempotent [OF h] h show ?thesis
    by (simp add: example_db_def)
qed

text \<open>A connection that is opened anew is counted: \<open>connect\<close> after \<open>close\<close>.\<close>

lemma connect_after_close:
  "connections_opened (client (snd (connect (closed_db [] [])))) = 2
   \<and> fst (connect (closed_db [] [])) = Inr ()"
  by (simp add: connect_eq closed_db_def close_def client_close_def example_db_def
      client_connect_def executeOperation_def createIndex_def)


subsection \<open>C10: an interval of 0\<close>

text \<open>
  C10: for a task object whose \<open>intervalMs\<close> is present and 0,
  \<open>rescheduleIfRecurring\<close> is \<open>markCompleted\<close> with \<open>failed = false\<close>: on a
  store whose field \<open>collection\<close> is assigned and whose client is connected, the
  stored task with that \<open>_id\<close> becomes \<open>completed\<close>, not \<open>pending\<close>, and
  its \<open>nextRunAt\<close> is not moved. The test \<open>!task.intervalMs\<close> holds of 0 as it
  holds of an absent interval.
\<close>

theorem rescheduleIfRecurring_zero_interval:
  assumes "intervalMs task = Some (Num 0)"
    and "collection s"
    and "topology_connected (client s)"
    and "doc_id task = Some taskId"
    and "findOne (has_id taskId) (scheduled_tasks s) = Some t"
  shows "falsy (intervalMs task)
         \<and> rescheduleIfRecurring now now' task s = markCompleted now' taskId False s
         \<and> (\<exists>s'. rescheduleIfRecurring now now' task s = (Inr (), s')
               \<and> findOne (has_id taskId) (scheduled_tasks s')
                   = Some (t\<lparr>status := Completed, updatedAt := now'\<rparr>))"
proof -
  have f: "falsy (intervalMs task)"
    using assms(1) by (simp add: falsy_def)
  have eq: "rescheduleIfRecurring now now' task s = markCompleted now' taskId False s"
    using f assms(4) by (simp add: rescheduleIfRecurring_def)
  show ?thesis
    using f eq markCompleted_stored [OF assms(2) assms(3) assms(5), of now' False] by auto
qed

theorem rescheduleIfRecurring_zero_interval_witness:
  "intervalMs (example_task\<lparr>doc_id := Some 5, intervalMs := Some (Num 0), status := Running\<rparr>)
     = Some (Num 0)
   \<and> collection (example_db
        [example_task\<lparr>doc_id := Some 5, intervalMs := Some (Num 0), status := Running\<rparr>] [])
   \<and> topology_connected (client (example_db
        [example_task\<lparr>doc_id := Some 5, intervalMs := Some (Num 0), status := Running\<rparr>] []))
   \<and> doc_id (example_task\<lparr>doc_id := Some 5, intervalMs := Some (Num 0), status := Running\<rparr>)
     = Some 5
   \<and> findOne (has_id 5) (scheduled_tasks (example_db
        [example_task\<lparr>doc_id := Some 5, intervalMs := Some (Num 0), status := Running\<rparr>] []))
       = Some (example_task\<lparr>doc_id := Some 5, intervalMs := Some (Num 0), status := Running\<rparr>)
   \<and> (\<exists>s'. rescheduleIfRecurring 200 201
               (example_task\<lparr>doc_id := Some 5, intervalMs := Some (Num 0), status := Running\<rparr>)
               (example_db
                 [example_task\<lparr>doc_id := Some 5, intervalMs := Some (Num 0), status := Running\<rparr>]
                 [])
             = (Inr (), s')
         \<and> findOne (has_id 5) (scheduled_tasks s')
             = Some (example_task\<lparr>doc_id := Some 5, intervalMs := Some (Num 0),
                       status := Completed, updatedAt := 201\<rparr>))"
proof -
  let ?t = "example_task\<lparr>doc_id := Some 5, intervalMs := Some (Num 0), status := Running\<rparr>"
  let ?s = "example_db [?t] []"
  have h0: "intervalMs ?t = Some (Num 0)"
    by simp
  have h1: "collection ?s"
    by (simp add: example_db_def)
  have h2: "topology_connected (client ?s)"
    by (simp add: example_db_def)
  have h3: "doc_id ?t = Some 5"
    by simp
  have h4: "findOne (has_id 5) (scheduled_tasks ?s) = Some ?t"
    by (simp add: example_db_def findOne_def has_id_def)
  have e: "?t\<lparr>status := Completed, updatedAt := 201\<rparr>
      = example_task\<lparr>doc_id := Some 5, intervalMs := Some (Num 0), status := Completed,
          updatedAt := 201\<rparr>"
    by simp
  from rescheduleIfRecurring_zero_interval [OF h0 h1 h2 h3 h4, of 200 201] h0 h1 h2 h3 h4
  show ?thesis
    unfolding e by blast
qed


end
